theory Spec2Isabelle
  imports Complex_Main "HOL-Library.Char_ord" "HOL-Library.List_Lexorder" "HOL-Library.Multiset"
    "HOL-Library.Log_Nat"
begin

section \<open>Python values read by \<open>find_price_at_cutoff\<close>\<close>

text \<open>
  The embedding follows \<^verbatim>\<open>src/experiments/build_dataset.py\<close>. Exceptions are values:
  a computation that can raise returns \<open>py_error + 'a\<close>, with \<open>Inl\<close> the exception.
\<close>

datatype py_error = TypeError | ValueError | OverflowError | OSError

text \<open>
  A \<^verbatim>\<open>datetime\<close> object is either naive (a wall-clock reading without zone) or aware
  (an instant with a zone). The payload is the position on the respective time line in
  microseconds. Python orders two naive or two aware objects; comparing a naive with an
  aware one with \<^verbatim>\<open><=\<close> raises \<^verbatim>\<open>TypeError\<close>.
\<close>

datatype pydatetime = Naive int | Aware int

fun dt_le :: "pydatetime \<Rightarrow> pydatetime \<Rightarrow> py_error + bool" where
  "dt_le (Naive a) (Naive b) = Inr (a \<le> b)"
| "dt_le (Aware a) (Aware b) = Inr (a \<le> b)"
| "dt_le (Naive a) (Aware b) = Inl TypeError"
| "dt_le (Aware a) (Naive b) = Inl TypeError"

text \<open>
  A trade is a dictionary of which the routine reads two keys. \<open>created_time\<close> is
  \<open>None\<close> when the key is absent and otherwise holds the string stored under it;
  \<open>price\<close> is \<open>None\<close> when \<^verbatim>\<open>trade.get('price')\<close> is \<^verbatim>\<open>None\<close> (key absent or null).
  Further keys of the dictionary live in the extension slot of the record. The type
  fixes what the exchange's schema says: a \<open>created_time\<close> that is present is a string.
  A value of another type under that key (null, a number) is outside this model.
\<close>

record trade =
  created_time :: "string option"
  price :: "rat option"

text \<open>
  The library calls of the routine are parameters: \<^verbatim>\<open>dateutil.parser.parse\<close>,
  \<^verbatim>\<open>datetime.fromtimestamp\<close> (called without a zone, so its result is naive: the
  parameter gives the payload of that naive object) and \<^verbatim>\<open>datetime.timestamp\<close>
  (a float, taken as the rational it denotes). Each may raise.
\<close>

record pylib =
  parse :: "string \<Rightarrow> py_error + pydatetime"
  fromtimestamp :: "int \<Rightarrow> py_error + int"
  timestamp :: "pydatetime \<Rightarrow> py_error + rat"

section \<open>The routine\<close>

text \<open>\<^verbatim>\<open>t.get('created_time', '')\<close>: the sort key, and the string each scan reads.\<close>

definition trade_key :: "trade \<Rightarrow> string" where
  "trade_key t = (case created_time t of None \<Rightarrow> [] | Some s \<Rightarrow> s)"

text \<open>
  \<^verbatim>\<open>sorted(trades, key=lambda t: t.get('created_time', ''), reverse=True)\<close>.
  Python compares the keys as strings, code point by code point (the order of the bytes
  of their UTF-8 encoding, which is what \<open>string\<close> holds), and its sort is stable;
  with \<^verbatim>\<open>reverse=True\<close> it reverses the list, sorts it stably in ascending order and
  reverses the result, so that records with equal keys keep their input order.
\<close>

definition sorted_trades :: "trade list \<Rightarrow> trade list" where
  "sorted_trades trades = rev (sort_key trade_key (rev trades))"

text \<open>
  The body of both \<^verbatim>\<open>for trade in sorted_trades\<close> loops (lines 117-130 and 133-145),
  which differ only in the bound \<^verbatim>\<open>cutoff_dt\<close> or \<^verbatim>\<open>close_dt\<close>: \<open>Some (price, ts)\<close>
  when the body returns, \<open>None\<close> when it goes on to the next record. Everything raised
  inside \<^verbatim>\<open>try\<close> is caught by the bare \<^verbatim>\<open>except\<close>.
\<close>

definition scan_trade :: "pylib \<Rightarrow> pydatetime \<Rightarrow> trade \<Rightarrow> (rat \<times> rat) option" where
  "scan_trade L bound_dt trade =
     (let trade_time_str = trade_key trade in
      if trade_time_str = [] then None
      else
        (case parse L trade_time_str of
           Inl e \<Rightarrow> None
         | Inr trade_dt \<Rightarrow>
             (case dt_le trade_dt bound_dt of
                Inl e \<Rightarrow> None
              | Inr b \<Rightarrow>
                  if b then
                    (case price trade of
                       None \<Rightarrow> None
                     | Some p \<Rightarrow>
                         (case timestamp L trade_dt of
                            Inl e \<Rightarrow> None
                          | Inr ts \<Rightarrow> Some (p, ts)))
                  else None)))"

fun scan_trades :: "pylib \<Rightarrow> pydatetime \<Rightarrow> trade list \<Rightarrow> (rat \<times> rat) option" where
  "scan_trades L bound_dt [] = None"
| "scan_trades L bound_dt (trade # rest) =
     (case scan_trade L bound_dt trade of
        Some r \<Rightarrow> Some r
      | None \<Rightarrow> scan_trades L bound_dt rest)"

text \<open>
  \<^verbatim>\<open>find_price_at_cutoff(trades, cutoff_ts, close_ts)\<close>. The result is the tuple
  \<open>(price, trade_timestamp, num_trades_used)\<close>; the two conversions of lines 113-114
  stand outside every \<^verbatim>\<open>try\<close>, so what they raise leaves the routine.
\<close>

definition find_price_at_cutoff ::
  "pylib \<Rightarrow> trade list \<Rightarrow> int \<Rightarrow> int \<Rightarrow> py_error + (rat option \<times> rat option \<times> nat)" where
  "find_price_at_cutoff L trades cutoff_ts close_ts =
     (if trades = [] then Inr (None, None, 0)
      else
        (let srt = sorted_trades trades in
         case fromtimestamp L cutoff_ts of
           Inl e \<Rightarrow> Inl e
         | Inr cutoff_dt \<Rightarrow>
             (case fromtimestamp L close_ts of
                Inl e \<Rightarrow> Inl e
              | Inr close_dt \<Rightarrow>
                  (case scan_trades L (Naive cutoff_dt) srt of
                     Some (p, ts) \<Rightarrow> Inr (Some p, Some ts, length trades)
                   | None \<Rightarrow>
                       (case scan_trades L (Naive close_dt) srt of
                          Some (p, ts) \<Rightarrow> Inr (Some p, Some ts, length trades)
                        | None \<Rightarrow> Inr (None, None, length trades))))))"

text \<open>
  The same routine on an object store, for the statements about mutation. Python hands
  \<^verbatim>\<open>trades\<close> over by reference: the store is the list of the list objects alive, a
  reference is an index into it, and \<^verbatim>\<open>sorted(...)\<close> allocates a new list object and
  leaves its argument alone (\<^verbatim>\<open>trades.sort(...)\<close> would overwrite it). Every other
  statement of the routine only reads; \<^verbatim>\<open>len(trades)\<close> is read when the routine returns.
\<close>

type_synonym store = "trade list list"

definition py_sorted :: "store \<Rightarrow> nat \<Rightarrow> nat \<times> store" where
  "py_sorted \<sigma> r = (length \<sigma>, \<sigma> @ [sorted_trades (\<sigma> ! r)])"

definition find_price_at_cutoff_store ::
  "pylib \<Rightarrow> store \<Rightarrow> nat \<Rightarrow> int \<Rightarrow> int
     \<Rightarrow> (py_error + (rat option \<times> rat option \<times> nat)) \<times> store" where
  "find_price_at_cutoff_store L \<sigma> trades cutoff_ts close_ts =
     (if \<sigma> ! trades = [] then (Inr (None, None, 0), \<sigma>)
      else
        (case py_sorted \<sigma> trades of
           (srt, \<sigma>') \<Rightarrow>
             (case fromtimestamp L cutoff_ts of
                Inl e \<Rightarrow> (Inl e, \<sigma>')
              | Inr cutoff_dt \<Rightarrow>
                  (case fromtimestamp L close_ts of
                     Inl e \<Rightarrow> (Inl e, \<sigma>')
                   | Inr close_dt \<Rightarrow>
                       (case scan_trades L (Naive cutoff_dt) (\<sigma>' ! srt) of
                          Some (p, ts) \<Rightarrow> (Inr (Some p, Some ts, length (\<sigma>' ! trades)), \<sigma>')
                        | None \<Rightarrow>
                            (case scan_trades L (Naive close_dt) (\<sigma>' ! srt) of
                               Some (p, ts) \<Rightarrow>
                                 (Inr (Some p, Some ts, length (\<sigma>' ! trades)), \<sigma>')
                             | None \<Rightarrow> (Inr (None, None, length (\<sigma>' ! trades)), \<sigma>')))))))"

text \<open>
  The fallback of the caller, \<^verbatim>\<open>build_dataset\<close> lines 273-282, on the tuple the routine
  returned. \<open>quote_usable q\<close> is the test \<^verbatim>\<open>q and q > 0\<close>, false for \<^verbatim>\<open>None\<close> and for zero.
\<close>

definition quote_usable :: "rat option \<Rightarrow> bool" where
  "quote_usable q = (case q of None \<Rightarrow> False | Some v \<Rightarrow> v \<noteq> 0 \<and> v > 0)"

definition build_dataset_fallback ::
  "rat option \<times> rat option \<times> nat \<Rightarrow> rat option \<Rightarrow> rat option \<Rightarrow> int
     \<Rightarrow> rat option \<times> rat option \<times> nat" where
  "build_dataset_fallback res last_price previous_price cutoff_ts =
     (case res of (price_at_cutoff, trade_ts, num_trades_used) \<Rightarrow>
        if price_at_cutoff = None then
          (if quote_usable last_price then (last_price, Some (of_int cutoff_ts), 0)
           else if quote_usable previous_price then
             (previous_price, Some (of_int cutoff_ts), 0)
           else (price_at_cutoff, trade_ts, num_trades_used))
        else (price_at_cutoff, trade_ts, num_trades_used))"

section \<open>Vocabulary of the statements\<close>

text \<open>
  The time the routine reads off a record: the parsed \<open>created_time\<close>, when the string
  is not empty and parses.
\<close>

definition trade_time :: "pylib \<Rightarrow> trade \<Rightarrow> pydatetime option" where
  "trade_time L t =
     (if trade_key t = [] then None
      else (case parse L (trade_key t) of Inl e \<Rightarrow> None | Inr dt \<Rightarrow> Some dt))"

text \<open>\<open>created_time <= bound\<close> and \<open>created_time > bound\<close>, for a record that has a time.\<close>

definition at_or_before :: "pylib \<Rightarrow> pydatetime \<Rightarrow> trade \<Rightarrow> bool" where
  "at_or_before L bound_dt t =
     (case trade_time L t of None \<Rightarrow> False | Some dt \<Rightarrow> dt_le dt bound_dt = Inr True)"

definition created_after :: "pylib \<Rightarrow> pydatetime \<Rightarrow> trade \<Rightarrow> bool" where
  "created_after L bound_dt t =
     (case trade_time L t of None \<Rightarrow> False | Some dt \<Rightarrow> dt_le dt bound_dt = Inr False)"

text \<open>
  A record a scan can return: its time is at or before the bound, its price is present
  and the conversion of its time to a timestamp succeeds.
\<close>

definition usable :: "pylib \<Rightarrow> pydatetime \<Rightarrow> trade \<Rightarrow> bool" where
  "usable L bound_dt t =
     (at_or_before L bound_dt t \<and> price t \<noteq> None \<and>
      (case trade_time L t of
         None \<Rightarrow> False
       | Some dt \<Rightarrow> (case timestamp L dt of Inl e \<Rightarrow> False | Inr ts \<Rightarrow> True)))"

text \<open>Every \<open>created_time\<close> of the list that parses denotes a datetime without zone.\<close>

definition zone_free :: "pylib \<Rightarrow> trade list \<Rightarrow> bool" where
  "zone_free L trades =
     (\<forall>t \<in> set trades. case trade_time L t of Some (Aware w) \<Rightarrow> False | _ \<Rightarrow> True)"

text \<open>The wall-clock reading of a record without zone (\<open>None\<close> for every other record).\<close>

definition wall_clock :: "pylib \<Rightarrow> trade \<Rightarrow> int option" where
  "wall_clock L t = (case trade_time L t of Some (Naive w) \<Rightarrow> Some w | _ \<Rightarrow> None)"

text \<open>
  The order of the \<open>created_time\<close> strings agrees with the order of the times they
  denote, on the records of the list that have a time without zone. One fixed-width
  format for all records gives this; two formats side by side need not.
\<close>

definition keys_chronological :: "pylib \<Rightarrow> trade list \<Rightarrow> bool" where
  "keys_chronological L trades =
     (\<forall>a \<in> set trades. \<forall>b \<in> set trades.
        case (wall_clock L a, wall_clock L b) of
          (Some x, Some y) \<Rightarrow> trade_key a \<le> trade_key b \<longrightarrow> x \<le> y
        | _ \<Rightarrow> True)"

text \<open>
  Two behaviours of the library give the same answers to one call of the routine: on
  the two timestamps it converts, on the \<open>created_time\<close> strings it parses and on the
  parsed times it converts back.
\<close>

definition same_record :: "pylib \<Rightarrow> pylib \<Rightarrow> trade \<Rightarrow> bool" where
  "same_record L L' t =
     (trade_time L t = trade_time L' t \<and>
      (case trade_time L t of
         None \<Rightarrow> True
       | Some dt \<Rightarrow> timestamp L dt = timestamp L' dt))"

definition same_answers :: "pylib \<Rightarrow> pylib \<Rightarrow> trade list \<Rightarrow> int \<Rightarrow> int \<Rightarrow> bool" where
  "same_answers L L' trades cutoff_ts close_ts =
     (fromtimestamp L cutoff_ts = fromtimestamp L' cutoff_ts \<and>
      fromtimestamp L close_ts = fromtimestamp L' close_ts \<and>
      (\<forall>t \<in> set trades. same_record L L' t))"

section \<open>A sample library\<close>

text \<open>
  The closed examples below run the routine against concrete behaviours of the library:
  CPython 3.11 on 64-bit Linux. A float is the rational it denotes; \<open>round_double\<close> is
  the rounding of binary64 arithmetic, to the nearest value with 53 significant bits,
  ties to even, in the normal range (integers up to \<open>2 ^ 53\<close> are exact).
\<close>

definition floor_log2 :: "rat \<Rightarrow> int" where
  "floor_log2 a =
     (case quotient_of a of
        (n, d) \<Rightarrow>
          if d \<le> n then bitlen (n div d) - 1 else - bitlen ((d + n - 1) div n - 1))"

definition pow2 :: "int \<Rightarrow> rat" where
  "pow2 k = (if 0 \<le> k then 2 ^ nat k else 1 / 2 ^ nat (- k))"

definition round_half_even :: "rat \<Rightarrow> int" where
  "round_half_even x =
     (let f = \<lfloor>x\<rfloor>; d = x - of_int f
      in if d < 1 / 2 then f else if 1 / 2 < d then f + 1 else if even f then f else f + 1)"

definition round_double :: "rat \<Rightarrow> rat" where
  "round_double q =
     (if q = of_int \<lfloor>q\<rfloor> \<and> \<bar>q\<bar> \<le> 9007199254740992 then q
      else
        (let a = \<bar>q\<bar>; ulp = pow2 (floor_log2 a - 52)
         in sgn q * of_int (round_half_even (a / ulp)) * ulp))"

text \<open>
  The sample machine has the local zone UTC. \<^verbatim>\<open>datetime.fromtimestamp(ts)\<close> is the
  wall-clock reading \<open>ts\<close> seconds after 1970-01-01 00:00. It raises \<^verbatim>\<open>OverflowError\<close>
  outside the range of \<^verbatim>\<open>time_t\<close>, \<^verbatim>\<open>OSError\<close> where \<^verbatim>\<open>localtime\<close> overflows and
  \<^verbatim>\<open>ValueError\<close> where the year leaves 1 to 9999 (the first day of year 1 included:
  the conversion probes one day back). \<^verbatim>\<open>timestamp()\<close> of a naive datetime adds the
  seconds and the float \<^verbatim>\<open>microsecond / 1e6\<close> in binary64, and raises on the first day of
  year 1; of an aware datetime it is the quotient of the microseconds since the epoch by
  \<open>10 ^ 6\<close>, rounded once. Payloads outside the years 1 to 9999 denote no datetime.
\<close>

definition sample_fromtimestamp :: "int \<Rightarrow> py_error + int" where
  "sample_fromtimestamp ts =
     (if ts < - 9223372036854775808 \<or> 9223372036854775807 < ts then Inl OverflowError
      else if ts < - 67768040609740800 \<or> 67768036191676799 < ts then Inl OSError
      else if ts < - 62135510400 \<or> 253402300799 < ts then Inl ValueError
      else Inr (ts * 1000000))"

fun sample_timestamp :: "pydatetime \<Rightarrow> py_error + rat" where
  "sample_timestamp (Naive w) =
     (if w div 1000000 < - 62135510400 then Inl ValueError
      else Inr (round_double (of_int (w div 1000000)
                  + round_double (of_int (w mod 1000000) / 1000000))))"
| "sample_timestamp (Aware w) = Inr (round_double (of_int w / 1000000))"

text \<open>
  \<open>sample_parse\<close> lists what \<^verbatim>\<open>dateutil.parser.parse\<close> returns on the strings the
  examples use: a string without zone gives a naive object, the suffix \<^verbatim>\<open>Z\<close> an aware
  one. On every other string the sample raises; the examples read none.
\<close>

definition sample_parse :: "string \<Rightarrow> py_error + pydatetime" where
  "sample_parse s =
     (if s = ''2024-01-01T10:00:00'' then Inr (Naive 1704103200000000)
      else if s = ''2024-01-01T11:30:00'' then Inr (Naive 1704108600000000)
      else if s = ''2024-01-01 11:45:00'' then Inr (Naive 1704109500000000)
      else if s = ''2024-01-01T13:00:00'' then Inr (Naive 1704114000000000)
      else if s = ''2024-01-01 13:30:00'' then Inr (Naive 1704115800000000)
      else if s = ''2024-01-01T13:30:00'' then Inr (Naive 1704115800000000)
      else if s = ''2024-01-01T15:00:00'' then Inr (Naive 1704121200000000)
      else if s = ''2024-01-01T11:30:00Z'' then Inr (Aware 1704108600000000)
      else Inl ValueError)"

definition sample_lib :: pylib where
  "sample_lib =
     \<lparr>parse = sample_parse, fromtimestamp = sample_fromtimestamp,
      timestamp = sample_timestamp\<rparr>"

text \<open>
  A second machine, five hours west of UTC (zone \<^verbatim>\<open>Etc/GMT+5\<close>): the same timestamp is a
  wall-clock reading five hours earlier, and the same naive reading a timestamp five
  hours later.
\<close>

definition west_fromtimestamp :: "int \<Rightarrow> py_error + int" where
  "west_fromtimestamp ts =
     (if ts < - 9223372036854775808 \<or> 9223372036854775807 < ts then Inl OverflowError
      else if ts - 18000 < - 67768040609740800 \<or> 67768036191676799 < ts - 18000
        then Inl OSError
      else if ts - 18000 < - 62135510400 \<or> 253402300799 < ts - 18000 then Inl ValueError
      else Inr ((ts - 18000) * 1000000))"

fun west_timestamp :: "pydatetime \<Rightarrow> py_error + rat" where
  "west_timestamp (Naive w) =
     (if w div 1000000 < - 62135510400 then Inl ValueError
      else Inr (round_double (of_int (w div 1000000 + 18000)
                  + round_double (of_int (w mod 1000000) / 1000000))))"
| "west_timestamp (Aware w) = Inr (round_double (of_int w / 1000000))"

definition west_lib :: pylib where
  "west_lib =
     \<lparr>parse = sample_parse, fromtimestamp = west_fromtimestamp, timestamp = west_timestamp\<rparr>"

text \<open>
  The sample machine on a given day: \<^verbatim>\<open>parser.parse\<close> is called without
  \<^verbatim>\<open>default=\<close>, so a string that names no date gets the date of the clock. \<open>midnight\<close>
  is the wall-clock reading of today's 00:00; 2024-01-01 is \<open>1704067200000000\<close> and the
  day after \<open>1704153600000000\<close>.
\<close>

definition clock_parse :: "int \<Rightarrow> string \<Rightarrow> py_error + pydatetime" where
  "clock_parse midnight s =
     (if s = ''10:00'' then Inr (Naive (midnight + 36000000000)) else sample_parse s)"

definition clock_lib :: "int \<Rightarrow> pylib" where
  "clock_lib midnight =
     \<lparr>parse = clock_parse midnight, fromtimestamp = sample_fromtimestamp,
      timestamp = sample_timestamp\<rparr>"

text \<open>
  The inputs of the examples. On the sample machine 12:00 of 2024-01-01 is the
  timestamp \<open>1704110400\<close> and 14:00 is \<open>1704117600\<close>; prices are exact fractions.
\<close>

definition mk_trade :: "string \<Rightarrow> rat \<Rightarrow> trade" where
  "mk_trade s p = \<lparr>created_time = Some s, price = Some p\<rparr>"

definition window_example :: "trade list" where
  "window_example =
     [mk_trade ''2024-01-01T10:00:00'' (60 / 100), mk_trade ''2024-01-01T11:30:00'' (65 / 100),
      mk_trade ''2024-01-01T13:00:00'' (70 / 100)]"

definition late_example :: "trade list" where
  "late_example = [mk_trade ''2024-01-01T15:00:00'' (80 / 100)]"

definition afternoon_example :: "trade list" where
  "afternoon_example =
     [mk_trade ''2024-01-01T13:00:00'' (65 / 100), mk_trade ''2024-01-01T13:30:00'' (70 / 100)]"

text \<open>Two formats side by side: \<^verbatim>\<open>'T'\<close> sorts above the blank, whatever the hour.\<close>

definition two_formats_before :: "trade list" where
  "two_formats_before =
     [mk_trade ''2024-01-01 11:45:00'' (70 / 100), mk_trade ''2024-01-01T11:30:00'' (65 / 100)]"

definition two_formats_after :: "trade list" where
  "two_formats_after =
     [mk_trade ''2024-01-01 13:30:00'' (70 / 100), mk_trade ''2024-01-01T13:00:00'' (65 / 100)]"

text \<open>The latest record carries no price.\<close>

definition priceless_before :: "trade list" where
  "priceless_before =
     [\<lparr>created_time = Some ''2024-01-01T11:30:00'', price = None\<rparr>,
      mk_trade ''2024-01-01T10:00:00'' (60 / 100)]"

definition priceless_after :: "trade list" where
  "priceless_after =
     [\<lparr>created_time = Some ''2024-01-01T13:30:00'', price = None\<rparr>,
      mk_trade ''2024-01-01T13:00:00'' (65 / 100)]"

text \<open>One trade at 10:00, once with its date and once without.\<close>

definition morning_example :: "trade list" where
  "morning_example = [mk_trade ''2024-01-01T10:00:00'' (60 / 100)]"

definition undated_example :: "trade list" where
  "undated_example = [mk_trade ''10:00'' (60 / 100)]"

text \<open>A timestamp that names its zone, with the suffix \<^verbatim>\<open>Z\<close>.\<close>

definition zoned_before :: "trade list" where
  "zoned_before = [mk_trade ''2024-01-01T11:30:00Z'' (65 / 100)]"

lemmas sample_eval =
  find_price_at_cutoff_def sorted_trades_def scan_trade_def trade_key_def
  sample_lib_def sample_parse_def sample_fromtimestamp_def round_double_def mk_trade_def

section \<open>The sort and the scans\<close>

lemma set_sorted_trades: "set (sorted_trades ts) = set ts"
  by (simp add: sorted_trades_def)

lemma length_sorted_trades: "length (sorted_trades ts) = length ts"
  by (simp add: sorted_trades_def)

lemma mset_sorted_trades: "mset (sorted_trades ts) = mset ts"
  by (simp add: sorted_trades_def)

text \<open>The keys of the sorted list descend, and records with one key keep their order.\<close>

lemma sorted_trades_descending: "sorted (rev (map trade_key (sorted_trades ts)))"
  by (simp add: sorted_trades_def rev_map)

lemma sorted_trades_stable:
  "filter (\<lambda>t. trade_key t = k) (sorted_trades ts) = filter (\<lambda>t. trade_key t = k) ts"
  by (simp add: sorted_trades_def rev_filter [symmetric] sort_key_stable)

text \<open>What the loop body returns, and when it goes on.\<close>

lemma scan_trade_Some:
  "scan_trade L b t = Some (p, r) \<longleftrightarrow>
     (\<exists>dt. trade_time L t = Some dt \<and> dt_le dt b = Inr True \<and> price t = Some p \<and>
           timestamp L dt = Inr r)"
  by (auto simp: scan_trade_def trade_time_def Let_def
      split: sum.splits option.splits if_splits)

lemma scan_trade_None: "scan_trade L b t = None \<longleftrightarrow> \<not> usable L b t"
  by (auto simp: scan_trade_def usable_def at_or_before_def trade_time_def Let_def
      split: sum.splits option.splits if_splits)

lemma scan_trades_None:
  "scan_trades L b ts = None \<longleftrightarrow> (\<forall>t \<in> set ts. scan_trade L b t = None)"
  by (induction ts) (auto split: option.splits)

lemma scan_trades_member:
  assumes "scan_trades L b ts = Some (p, r)"
  shows "\<exists>t \<in> set ts. scan_trade L b t = Some (p, r)"
  using assms by (induction ts) (auto split: option.splits)

text \<open>A scan returns at the first record its body accepts.\<close>

lemma scan_trades_Some:
  "scan_trades L b ts = Some r \<longleftrightarrow>
     (\<exists>pre u post. ts = pre @ u # post \<and> (\<forall>x \<in> set pre. scan_trade L b x = None) \<and>
        scan_trade L b u = Some r)"
proof (induction ts)
  case Nil
  then show ?case by simp
next
  case (Cons t ts)
  show ?case
  proof (cases "scan_trade L b t")
    case None
    show ?thesis
    proof
      assume "scan_trades L b (t # ts) = Some r"
      with None Cons obtain pre u post where
        "ts = pre @ u # post" "\<forall>x \<in> set pre. scan_trade L b x = None"
        "scan_trade L b u = Some r"
        by auto
      with None have "t # ts = (t # pre) @ u # post \<and>
          (\<forall>x \<in> set (t # pre). scan_trade L b x = None) \<and> scan_trade L b u = Some r"
        by simp
      then show "\<exists>pre u post. t # ts = pre @ u # post \<and>
          (\<forall>x \<in> set pre. scan_trade L b x = None) \<and> scan_trade L b u = Some r"
        by blast
    next
      assume "\<exists>pre u post. t # ts = pre @ u # post \<and>
          (\<forall>x \<in> set pre. scan_trade L b x = None) \<and> scan_trade L b u = Some r"
      then obtain pre u post where
        *: "t # ts = pre @ u # post" "\<forall>x \<in> set pre. scan_trade L b x = None"
          "scan_trade L b u = Some r"
        by blast
      with None obtain pre' where "pre = t # pre'" by (cases pre) auto
      with * have "ts = pre' @ u # post" "\<forall>x \<in> set pre'. scan_trade L b x = None" by auto
      with * Cons None show "scan_trades L b (t # ts) = Some r" by auto
    qed
  next
    case (Some a)
    show ?thesis
    proof
      assume "scan_trades L b (t # ts) = Some r"
      with Some have "a = r" by simp
      with Some have "t # ts = [] @ t # ts \<and>
          (\<forall>x \<in> set []. scan_trade L b x = None) \<and> scan_trade L b t = Some r"
        by simp
      then show "\<exists>pre u post. t # ts = pre @ u # post \<and>
          (\<forall>x \<in> set pre. scan_trade L b x = None) \<and> scan_trade L b u = Some r"
        by blast
    next
      assume "\<exists>pre u post. t # ts = pre @ u # post \<and>
          (\<forall>x \<in> set pre. scan_trade L b x = None) \<and> scan_trade L b u = Some r"
      then obtain pre u post where
        *: "t # ts = pre @ u # post" "\<forall>x \<in> set pre. scan_trade L b x = None"
          "scan_trade L b u = Some r"
        by blast
      with Some have "pre = []" by (cases pre) auto
      with * Some show "scan_trades L b (t # ts) = Some r" by auto
    qed
  qed
qed

lemma usable_wall_clock:
  assumes "usable L (Naive b) t"
  shows "\<exists>w. wall_clock L t = Some w \<and> w \<le> b"
proof -
  from assms obtain dt where dt: "trade_time L t = Some dt" "dt_le dt (Naive b) = Inr True"
    by (auto simp: usable_def at_or_before_def split: option.splits)
  then obtain w where "dt = Naive w" "w \<le> b" by (cases dt) auto
  with dt show ?thesis by (simp add: wall_clock_def)
qed

lemma scan_trades_first:
  assumes "\<exists>t \<in> set ts. usable L (Naive b) t"
  shows "\<exists>pre u post p w r. ts = pre @ u # post \<and> (\<forall>x \<in> set pre. \<not> usable L (Naive b) x) \<and>
           usable L (Naive b) u \<and> price u = Some p \<and> wall_clock L u = Some w \<and> w \<le> b \<and>
           timestamp L (Naive w) = Inr r \<and> scan_trades L (Naive b) ts = Some (p, r)"
proof -
  from assms have "scan_trades L (Naive b) ts \<noteq> None"
    unfolding scan_trades_None scan_trade_None by blast
  then obtain p r where some: "scan_trades L (Naive b) ts = Some (p, r)" by auto
  then obtain pre u post where
    split: "ts = pre @ u # post" "\<forall>x \<in> set pre. scan_trade L (Naive b) x = None"
      "scan_trade L (Naive b) u = Some (p, r)"
    unfolding scan_trades_Some by blast
  from split(3) obtain dt where
    dt: "trade_time L u = Some dt" "dt_le dt (Naive b) = Inr True" "price u = Some p"
      "timestamp L dt = Inr r"
    unfolding scan_trade_Some by blast
  then obtain w where w: "dt = Naive w" "w \<le> b" by (cases dt) auto
  from split(3) have "usable L (Naive b) u"
    using scan_trade_None [of L "Naive b" u] by simp
  moreover from split(2) have "\<forall>x \<in> set pre. \<not> usable L (Naive b) x"
    by (simp add: scan_trade_None)
  moreover from dt w have "wall_clock L u = Some w" by (simp add: wall_clock_def)
  ultimately show ?thesis using split(1) dt w some by blast
qed

text \<open>
  In a list with descending keys, the first usable record is the latest usable one as
  soon as the keys are chronological.
\<close>

lemma descending_latest:
  assumes srt: "sorted (rev (map trade_key (pre @ u # post)))"
    and chron: "keys_chronological L trades"
    and sub: "set (pre @ u # post) = set trades"
    and pre: "\<forall>x \<in> set pre. \<not> usable L (Naive b) x"
    and u: "wall_clock L u = Some w"
    and v: "v \<in> set trades" "usable L (Naive b) v"
  shows "\<exists>x. wall_clock L v = Some x \<and> x \<le> w"
proof -
  from usable_wall_clock [OF v(2)] obtain x where x: "wall_clock L v = Some x" by blast
  from v pre sub have "v = u \<or> v \<in> set post" by auto
  moreover from srt have "\<forall>k \<in> set post. trade_key k \<le> trade_key u"
    by (auto simp: sorted_append rev_map)
  ultimately have "trade_key v \<le> trade_key u" by auto
  moreover from sub have "u \<in> set trades" by auto
  ultimately have "x \<le> w"
    using chron v(1) x u unfolding keys_chronological_def by fastforce
  with x show ?thesis by simp
qed

text \<open>The routine once both conversions have succeeded, and when one of them raises.\<close>

lemma find_price_at_cutoff_cases:
  assumes "trades \<noteq> []" "fromtimestamp L cutoff_ts = Inr c" "fromtimestamp L close_ts = Inr d"
  shows "find_price_at_cutoff L trades cutoff_ts close_ts =
     (case scan_trades L (Naive c) (sorted_trades trades) of
        Some (p, ts) \<Rightarrow> Inr (Some p, Some ts, length trades)
      | None \<Rightarrow>
          (case scan_trades L (Naive d) (sorted_trades trades) of
             Some (p, ts) \<Rightarrow> Inr (Some p, Some ts, length trades)
           | None \<Rightarrow> Inr (None, None, length trades)))"
  using assms by (simp add: find_price_at_cutoff_def Let_def)

lemma find_price_at_cutoff_raises:
  assumes "trades \<noteq> []"
  shows "fromtimestamp L cutoff_ts = Inl e \<Longrightarrow>
           find_price_at_cutoff L trades cutoff_ts close_ts = Inl e"
    and "fromtimestamp L cutoff_ts = Inr c \<Longrightarrow> fromtimestamp L close_ts = Inl e \<Longrightarrow>
           find_price_at_cutoff L trades cutoff_ts close_ts = Inl e"
  using assms by (simp_all add: find_price_at_cutoff_def Let_def)

lemma created_after_not_usable:
  assumes "created_after L (Naive d) t" "c \<le> d"
  shows "scan_trade L (Naive c) t = None \<and> scan_trade L (Naive d) t = None"
proof -
  from assms(1) obtain dt where dt: "trade_time L t = Some dt" "dt_le dt (Naive d) = Inr False"
    by (auto simp: created_after_def split: option.splits)
  then obtain w where w: "dt = Naive w" "d < w" by (cases dt) auto
  with \<open>c \<le> d\<close> have "dt_le dt (Naive c) = Inr False" by simp
  with dt have "\<not> usable L (Naive c) t" "\<not> usable L (Naive d) t"
    by (simp_all add: usable_def at_or_before_def)
  then show ?thesis by (simp add: scan_trade_None)
qed

section \<open>The empty window\<close>

text \<open>
  C4. For the empty trades list the routine returns price absent, reference timestamp
  absent and \<open>trades_used = 0\<close>, whatever the two timestamps are (and whatever the
  library would do with them: line 107 returns before any conversion).
\<close>

theorem find_price_at_cutoff_empty:
  "find_price_at_cutoff L [] cutoff_ts close_ts = Inr (None, None, 0)"
  by (simp add: find_price_at_cutoff_def)

section \<open>The count and the shape of the result\<close>

text \<open>
  C9. Whenever the routine returns, \<open>trades_used\<close> is the length of the trades list:
  on the empty list, on a hit of either scan and when both scans fail. So the routine
  itself returns \<open>trades_used = 0\<close> only for the empty list, and the count says nothing
  about how many records were scanned or usable.
\<close>

theorem find_price_at_cutoff_trades_used:
  assumes "find_price_at_cutoff L trades cutoff_ts close_ts = Inr (p, ts, n)"
  shows "n = length trades \<and> (n = 0 \<longleftrightarrow> trades = [])"
  using assms
  by (auto simp: find_price_at_cutoff_def Let_def split: if_splits sum.splits option.splits)

text \<open>
  On the first worked example the routine returns the count 3, the length of the list,
  although the scan stopped at the second record of the sorted list.
\<close>

theorem find_price_at_cutoff_trades_used_witness:
  "find_price_at_cutoff sample_lib window_example 1704110400 1704117600
     = Inr (Some (65 / 100), Some 1704108600, 3) \<and>
   (3 = length window_example \<and> ((3::nat) = 0 \<longleftrightarrow> window_example = []))"
proof -
  have run: "find_price_at_cutoff sample_lib window_example 1704110400 1704117600
     = Inr (Some (65 / 100), Some 1704108600, 3)"
    by (simp add: sample_eval window_example_def)
  from find_price_at_cutoff_trades_used [OF run] run show ?thesis by simp
qed

text \<open>
  C10. Whenever the routine returns, price and reference timestamp are both absent or
  both present; when present they are the price and the converted, parsed
  \<open>created_time\<close> of one record of the input whose \<open>created_time\<close> is not empty and
  parses and whose price is not absent. Records without these are never selected, and
  they count in \<open>trades_used\<close> all the same, which is the length of the list.
\<close>

theorem find_price_at_cutoff_result_shape:
  assumes "find_price_at_cutoff L trades cutoff_ts close_ts = Inr (p, ts, n)"
  shows "n = length trades \<and>
     ((p = None \<and> ts = None) \<or>
      (\<exists>t \<in> set trades. \<exists>dt v r. trade_time L t = Some dt \<and> price t = Some v \<and>
          timestamp L dt = Inr r \<and> p = Some v \<and> ts = Some r))"
proof (cases "trades = []")
  case True
  with assms show ?thesis by (simp add: find_price_at_cutoff_def)
next
  case False
  from assms False obtain c d where
    cd: "fromtimestamp L cutoff_ts = Inr c" "fromtimestamp L close_ts = Inr d"
    by (auto simp: find_price_at_cutoff_def Let_def split: sum.splits)
  note eq = find_price_at_cutoff_cases [OF False cd]
  have hit: "\<exists>t \<in> set trades. \<exists>dt. trade_time L t = Some dt \<and> price t = Some v \<and>
          timestamp L dt = Inr r"
    if "scan_trades L b (sorted_trades trades) = Some (v, r)" for b v r
  proof -
    from scan_trades_member [OF that] obtain t where
      "t \<in> set (sorted_trades trades)" "scan_trade L b t = Some (v, r)" by blast
    then show ?thesis
      by (auto simp: set_sorted_trades scan_trade_Some)
  qed
  show ?thesis
  proof (cases "scan_trades L (Naive c) (sorted_trades trades)")
    case None
    note n1 = this
    show ?thesis
    proof (cases "scan_trades L (Naive d) (sorted_trades trades)")
      case None
      with n1 eq assms show ?thesis by simp
    next
      case (Some a)
      obtain v r where a: "a = (v, r)" by (cases a)
      from hit [OF Some [unfolded a]] Some a n1 eq assms show ?thesis by auto
    qed
  next
    case (Some a)
    obtain v r where a: "a = (v, r)" by (cases a)
    from hit [OF Some [unfolded a]] Some a eq assms show ?thesis by auto
  qed
qed

text \<open>
  A list whose latest record has no price: the routine returns the other record, price
  and timestamp together, and still counts both.
\<close>

theorem find_price_at_cutoff_result_shape_witness:
  "find_price_at_cutoff sample_lib priceless_before 1704110400 1704117600
     = Inr (Some (60 / 100), Some 1704103200, 2) \<and>
   (\<exists>t \<in> set priceless_before. \<exists>dt v r. trade_time sample_lib t = Some dt \<and>
      price t = Some v \<and> timestamp sample_lib dt = Inr r)"
proof -
  have run: "find_price_at_cutoff sample_lib priceless_before 1704110400 1704117600
     = Inr (Some (60 / 100), Some 1704103200, 2)"
    by (simp add: sample_eval priceless_before_def)
  from find_price_at_cutoff_result_shape [OF run] run show ?thesis by blast
qed

section \<open>Returning and raising\<close>

text \<open>
  C8, as amended. The routine returns normally exactly when the trades list is empty or
  \<^verbatim>\<open>datetime.fromtimestamp\<close> accepts both \<open>cutoff_ts\<close> and \<open>close_ts\<close>. No record makes
  it raise: a missing, empty or unparseable \<open>created_time\<close> and a missing price are
  skipped. On a list that is not empty, what a conversion raises leaves the routine.
\<close>

theorem find_price_at_cutoff_returns:
  "(\<exists>res. find_price_at_cutoff L trades cutoff_ts close_ts = Inr res) \<longleftrightarrow>
     (trades = [] \<or>
      ((\<exists>c. fromtimestamp L cutoff_ts = Inr c) \<and> (\<exists>d. fromtimestamp L close_ts = Inr d)))"
  by (auto simp: find_price_at_cutoff_def Let_def split: sum.splits option.splits)

text \<open>Both timestamps of the worked examples convert, so the routine returns there.\<close>

theorem find_price_at_cutoff_returns_witness:
  "fromtimestamp sample_lib 1704110400 = Inr 1704110400000000 \<and>
   fromtimestamp sample_lib 1704117600 = Inr 1704117600000000 \<and>
   (\<exists>res. find_price_at_cutoff sample_lib late_example 1704110400 1704117600 = Inr res)"
proof -
  have c: "fromtimestamp sample_lib 1704110400 = Inr 1704110400000000"
    and d: "fromtimestamp sample_lib 1704117600 = Inr 1704117600000000"
    by (simp_all add: sample_lib_def sample_fromtimestamp_def)
  with find_price_at_cutoff_returns [of sample_lib late_example 1704110400 1704117600]
  show ?thesis by blast
qed

text \<open>
  The claim as the specification words it, "never signals an error for any input",
  fails: a cutoff written in milliseconds lies in the year 55971, the conversion of
  line 113 raises \<^verbatim>\<open>ValueError\<close> outside every \<^verbatim>\<open>try\<close>, and the routine raises with it.
\<close>

theorem find_price_at_cutoff_returns_counterexample:
  "find_price_at_cutoff sample_lib late_example 1704110400000 1704117600 = Inl ValueError"
  by (simp add: sample_eval late_example_def)

section \<open>No record at or before the close\<close>

text \<open>
  C5. For every non-empty trades list in which all records have
  \<open>created_time > close_time\<close>, with \<open>cutoff_time <= close_time\<close> as the contract of the
  routine assumes (both read on the local wall clock, where the routine compares),
  neither scan finds a record and the routine returns price absent, reference
  timestamp absent and \<open>trades_used = len(trades)\<close>.
\<close>

theorem find_price_at_cutoff_all_after_close:
  assumes "trades \<noteq> []"
    and "fromtimestamp L cutoff_ts = Inr c" and "fromtimestamp L close_ts = Inr d"
    and "c \<le> d"
    and "\<forall>t \<in> set trades. created_after L (Naive d) t"
  shows "find_price_at_cutoff L trades cutoff_ts close_ts = Inr (None, None, length trades)"
proof -
  from assms(4,5) have "\<forall>t \<in> set (sorted_trades trades).
      scan_trade L (Naive c) t = None \<and> scan_trade L (Naive d) t = None"
    using created_after_not_usable [of L d _ c] by (simp add: set_sorted_trades)
  then have "scan_trades L (Naive c) (sorted_trades trades) = None"
    "scan_trades L (Naive d) (sorted_trades trades) = None"
    by (simp_all add: scan_trades_None)
  with find_price_at_cutoff_cases [OF assms(1-3)] show ?thesis by simp
qed

text \<open>The single trade at 15:00, an hour after the close.\<close>

theorem find_price_at_cutoff_all_after_close_witness:
  "late_example \<noteq> [] \<and>
   fromtimestamp sample_lib 1704110400 = Inr 1704110400000000 \<and>
   fromtimestamp sample_lib 1704117600 = Inr 1704117600000000 \<and>
   (1704110400000000::int) \<le> 1704117600000000 \<and>
   list_all (created_after sample_lib (Naive 1704117600000000)) late_example \<and>
   find_price_at_cutoff sample_lib late_example 1704110400 1704117600
     = Inr (None, None, length late_example)"
proof -
  have ne: "late_example \<noteq> []" by (simp add: late_example_def)
  have c: "fromtimestamp sample_lib 1704110400 = Inr 1704110400000000"
    and d: "fromtimestamp sample_lib 1704117600 = Inr 1704117600000000"
    by (simp_all add: sample_lib_def sample_fromtimestamp_def)
  have le: "(1704110400000000::int) \<le> 1704117600000000" by simp
  have after: "\<forall>t \<in> set late_example. created_after sample_lib (Naive 1704117600000000) t"
    by (simp add: sample_eval late_example_def created_after_def trade_time_def)
  from find_price_at_cutoff_all_after_close [OF ne c d le after] ne c d le after
  show ?thesis by (simp add: list_all_iff)
qed

section \<open>The worked examples\<close>

text \<open>
  C6. The two worked examples of the specification, with the times written as ISO
  strings without zone on the sample machine. Trades at 10:00 (0.60), 11:30 (0.65) and
  13:00 (0.70) with cutoff 12:00 and close 14:00 give price 0.65, reference timestamp
  11:30 (\<open>1704108600\<close>) and \<open>trades_used = 3\<close>; a single trade at 15:00 (0.80) gives
  price absent, reference timestamp absent and \<open>trades_used = 1\<close>.
\<close>

theorem find_price_at_cutoff_examples:
  "find_price_at_cutoff sample_lib
     [mk_trade ''2024-01-01T10:00:00'' (60 / 100), mk_trade ''2024-01-01T11:30:00'' (65 / 100),
      mk_trade ''2024-01-01T13:00:00'' (70 / 100)] 1704110400 1704117600
     = Inr (Some (65 / 100), Some 1704108600, 3) \<and>
   find_price_at_cutoff sample_lib
     [mk_trade ''2024-01-01T15:00:00'' (80 / 100)] 1704110400 1704117600
     = Inr (None, None, 1)"
  by (simp add: sample_eval)

section \<open>The cutoff scan\<close>

text \<open>
  C1, as amended. Call a record usable for a bound when its \<open>created_time\<close> is a
  non-empty string that parses to a datetime at or before the bound, its price is
  present and its \<^verbatim>\<open>timestamp()\<close> succeeds. For timestamps that convert and a trades
  list whose parsed times carry no zone, if some record is usable for the cutoff, the
  routine orders the trades by the \<open>created_time\<close> string, descending (a permutation of
  the input), and returns the price and the timestamp of the first usable record in
  that order, with \<open>trades_used = len(trades)\<close>. Where the order of the strings agrees
  with the order of the times, that record has the latest time among the usable ones.
\<close>

theorem find_price_at_cutoff_cutoff_scan:
  assumes "fromtimestamp L cutoff_ts = Inr c" and "fromtimestamp L close_ts = Inr d"
    and "zone_free L trades"
    and "\<exists>t \<in> set trades. usable L (Naive c) t"
  shows "\<exists>pre u post p w r.
      sorted_trades trades = pre @ u # post \<and>
      mset (sorted_trades trades) = mset trades \<and>
      sorted (rev (map trade_key (sorted_trades trades))) \<and>
      (\<forall>x \<in> set pre. \<not> usable L (Naive c) x) \<and> usable L (Naive c) u \<and>
      price u = Some p \<and> wall_clock L u = Some w \<and> timestamp L (Naive w) = Inr r \<and>
      find_price_at_cutoff L trades cutoff_ts close_ts = Inr (Some p, Some r, length trades) \<and>
      (keys_chronological L trades \<longrightarrow>
         (\<forall>v \<in> set trades. usable L (Naive c) v \<longrightarrow> (\<exists>x. wall_clock L v = Some x \<and> x \<le> w)))"
proof -
  from assms(4) have ne: "trades \<noteq> []" by auto
  from assms(4) have "\<exists>t \<in> set (sorted_trades trades). usable L (Naive c) t"
    by (simp add: set_sorted_trades)
  from scan_trades_first [OF this] obtain pre u post p w r where
    first: "sorted_trades trades = pre @ u # post" "\<forall>x \<in> set pre. \<not> usable L (Naive c) x"
      "usable L (Naive c) u" "price u = Some p" "wall_clock L u = Some w"
      "timestamp L (Naive w) = Inr r"
      "scan_trades L (Naive c) (sorted_trades trades) = Some (p, r)"
    by blast
  from first(7) have res:
    "find_price_at_cutoff L trades cutoff_ts close_ts = Inr (Some p, Some r, length trades)"
    by (simp add: find_price_at_cutoff_cases [OF ne assms(1,2)])
  have srt: "sorted (rev (map trade_key (pre @ u # post)))"
    using sorted_trades_descending [of trades] by (simp only: first(1))
  have sub: "set (pre @ u # post) = set trades"
    using set_sorted_trades [of trades] by (simp only: first(1))
  have latest: "\<exists>x. wall_clock L v = Some x \<and> x \<le> w"
    if "keys_chronological L trades" "v \<in> set trades" "usable L (Naive c) v" for v
    using descending_latest [OF srt that(1) sub first(2) first(5) that(2,3)] .
  from first res latest mset_sorted_trades [of trades] sorted_trades_descending [of trades]
  show ?thesis by blast
qed

text \<open>
  The first worked example: three records in one format, two of them usable for the
  cutoff 12:00; the routine returns the one of 11:30.
\<close>

theorem find_price_at_cutoff_cutoff_scan_witness:
  "fromtimestamp sample_lib 1704110400 = Inr 1704110400000000 \<and>
   fromtimestamp sample_lib 1704117600 = Inr 1704117600000000 \<and>
   zone_free sample_lib window_example \<and>
   (\<exists>t \<in> set window_example. usable sample_lib (Naive 1704110400000000) t) \<and>
   keys_chronological sample_lib window_example \<and>
   find_price_at_cutoff sample_lib window_example 1704110400 1704117600
     = Inr (Some (65 / 100), Some 1704108600, 3)"
proof -
  have c: "fromtimestamp sample_lib 1704110400 = Inr 1704110400000000"
    and d: "fromtimestamp sample_lib 1704117600 = Inr 1704117600000000"
    by (simp_all add: sample_lib_def sample_fromtimestamp_def)
  have zf: "zone_free sample_lib window_example"
    by (simp add: sample_eval window_example_def zone_free_def trade_time_def)
  have ex: "\<exists>t \<in> set window_example. usable sample_lib (Naive 1704110400000000) t"
    by (simp add: sample_eval window_example_def usable_def at_or_before_def trade_time_def del: not_None_eq)
  have chron: "keys_chronological sample_lib window_example"
    by (simp add: sample_eval window_example_def keys_chronological_def wall_clock_def trade_time_def)
  have run: "find_price_at_cutoff sample_lib window_example 1704110400 1704117600
     = Inr (Some (65 / 100), Some 1704108600, 3)"
    by (simp add: sample_eval window_example_def)
  from find_price_at_cutoff_cutoff_scan [OF c d zf ex]
  have "\<exists>p r. find_price_at_cutoff sample_lib window_example 1704110400 1704117600
     = Inr (Some p, Some r, length window_example)"
    by blast
  with c d zf ex chron run show ?thesis by blast
qed

text \<open>
  The claim as the specification words it fails on three inputs, each with a record at
  or before the cutoff 12:00. With two formats side by side the record of 11:45 is the
  latest, and the routine returns the one of 11:30, whose string sorts higher. When the
  latest record (11:30) has no price, the routine returns the one of 10:00. And a
  record whose string ends in \<^verbatim>\<open>Z\<close> parses to an aware datetime, the comparison with
  the naive cutoff raises inside \<^verbatim>\<open>try\<close>, and the routine returns no price at all.
\<close>

theorem find_price_at_cutoff_cutoff_scan_counterexample:
  "map (wall_clock sample_lib) two_formats_before
     = [Some 1704109500000000, Some 1704108600000000] \<and>
   map price two_formats_before = [Some (70 / 100), Some (65 / 100)] \<and>
   fromtimestamp sample_lib 1704110400 = Inr 1704110400000000 \<and>
   find_price_at_cutoff sample_lib two_formats_before 1704110400 1704117600
     = Inr (Some (65 / 100), Some 1704108600, 2) \<and>
   map (wall_clock sample_lib) priceless_before
     = [Some 1704108600000000, Some 1704103200000000] \<and>
   map price priceless_before = [None, Some (60 / 100)] \<and>
   find_price_at_cutoff sample_lib priceless_before 1704110400 1704117600
     = Inr (Some (60 / 100), Some 1704103200, 2) \<and>
   map (trade_time sample_lib) zoned_before = [Some (Aware 1704108600000000)] \<and>
   timestamp sample_lib (Aware 1704108600000000) = Inr 1704108600 \<and>
   find_price_at_cutoff sample_lib zoned_before 1704110400 1704117600
     = Inr (None, None, 1)"
  by (simp add: sample_eval two_formats_before_def priceless_before_def zoned_before_def
      wall_clock_def trade_time_def)

section \<open>The close-time scan\<close>

text \<open>
  C2, as amended. For timestamps that convert and a trades list whose parsed times carry
  no zone and in which every record's \<open>created_time\<close> parses and is after the cutoff,
  if some record is usable for the close time, the cutoff scan finds nothing and the
  second scan of the same descending list returns the price and the timestamp of the
  first record in that order that is usable for the close time, with
  \<open>trades_used = len(trades)\<close>. Where the order of the strings agrees with the order
  of the times, that record has the latest time among the usable ones.
\<close>

theorem find_price_at_cutoff_close_scan:
  assumes "fromtimestamp L cutoff_ts = Inr c" and "fromtimestamp L close_ts = Inr d"
    and "zone_free L trades"
    and "\<forall>t \<in> set trades. created_after L (Naive c) t"
    and "\<exists>t \<in> set trades. usable L (Naive d) t"
  shows "\<exists>pre u post p w r.
      sorted_trades trades = pre @ u # post \<and>
      mset (sorted_trades trades) = mset trades \<and>
      sorted (rev (map trade_key (sorted_trades trades))) \<and>
      scan_trades L (Naive c) (sorted_trades trades) = None \<and>
      (\<forall>x \<in> set pre. \<not> usable L (Naive d) x) \<and> usable L (Naive d) u \<and>
      price u = Some p \<and> wall_clock L u = Some w \<and> timestamp L (Naive w) = Inr r \<and>
      find_price_at_cutoff L trades cutoff_ts close_ts = Inr (Some p, Some r, length trades) \<and>
      (keys_chronological L trades \<longrightarrow>
         (\<forall>v \<in> set trades. usable L (Naive d) v \<longrightarrow> (\<exists>x. wall_clock L v = Some x \<and> x \<le> w)))"
proof -
  from assms(5) have ne: "trades \<noteq> []" by auto
  have "\<not> usable L (Naive c) t" if "t \<in> set trades" for t
    using assms(4) that
    by (auto simp: created_after_def usable_def at_or_before_def split: option.splits)
  then have none: "scan_trades L (Naive c) (sorted_trades trades) = None"
    by (simp add: scan_trades_None scan_trade_None set_sorted_trades)
  from assms(5) have "\<exists>t \<in> set (sorted_trades trades). usable L (Naive d) t"
    by (simp add: set_sorted_trades)
  from scan_trades_first [OF this] obtain pre u post p w r where
    first: "sorted_trades trades = pre @ u # post" "\<forall>x \<in> set pre. \<not> usable L (Naive d) x"
      "usable L (Naive d) u" "price u = Some p" "wall_clock L u = Some w"
      "timestamp L (Naive w) = Inr r"
      "scan_trades L (Naive d) (sorted_trades trades) = Some (p, r)"
    by blast
  from none first(7) have res:
    "find_price_at_cutoff L trades cutoff_ts close_ts = Inr (Some p, Some r, length trades)"
    by (simp add: find_price_at_cutoff_cases [OF ne assms(1,2)])
  have srt: "sorted (rev (map trade_key (pre @ u # post)))"
    using sorted_trades_descending [of trades] by (simp only: first(1))
  have sub: "set (pre @ u # post) = set trades"
    using set_sorted_trades [of trades] by (simp only: first(1))
  have latest: "\<exists>x. wall_clock L v = Some x \<and> x \<le> w"
    if "keys_chronological L trades" "v \<in> set trades" "usable L (Naive d) v" for v
    using descending_latest [OF srt that(1) sub first(2) first(5) that(2,3)] .
  from first res none latest mset_sorted_trades [of trades]
    sorted_trades_descending [of trades]
  show ?thesis by blast
qed

text \<open>
  Two records in one format at 13:00 and 13:30, between the cutoff 12:00 and the close
  14:00: the fallback returns the one of 13:30.
\<close>

theorem find_price_at_cutoff_close_scan_witness:
  "fromtimestamp sample_lib 1704110400 = Inr 1704110400000000 \<and>
   fromtimestamp sample_lib 1704117600 = Inr 1704117600000000 \<and>
   zone_free sample_lib afternoon_example \<and>
   list_all (created_after sample_lib (Naive 1704110400000000)) afternoon_example \<and>
   (\<exists>t \<in> set afternoon_example. usable sample_lib (Naive 1704117600000000) t) \<and>
   keys_chronological sample_lib afternoon_example \<and>
   find_price_at_cutoff sample_lib afternoon_example 1704110400 1704117600
     = Inr (Some (70 / 100), Some 1704115800, 2)"
proof -
  have c: "fromtimestamp sample_lib 1704110400 = Inr 1704110400000000"
    and d: "fromtimestamp sample_lib 1704117600 = Inr 1704117600000000"
    by (simp_all add: sample_lib_def sample_fromtimestamp_def)
  have zf: "zone_free sample_lib afternoon_example"
    by (simp add: sample_eval afternoon_example_def zone_free_def trade_time_def)
  have after:
    "\<forall>t \<in> set afternoon_example. created_after sample_lib (Naive 1704110400000000) t"
    by (simp add: sample_eval afternoon_example_def created_after_def trade_time_def)
  have ex: "\<exists>t \<in> set afternoon_example. usable sample_lib (Naive 1704117600000000) t"
    by (simp add: sample_eval afternoon_example_def usable_def at_or_before_def trade_time_def del: not_None_eq)
  have chron: "keys_chronological sample_lib afternoon_example"
    by (simp add: sample_eval afternoon_example_def keys_chronological_def wall_clock_def trade_time_def)
  have run: "find_price_at_cutoff sample_lib afternoon_example 1704110400 1704117600
     = Inr (Some (70 / 100), Some 1704115800, 2)"
    by (simp add: sample_eval afternoon_example_def)
  from find_price_at_cutoff_close_scan [OF c d zf after ex]
  have "\<exists>p r. find_price_at_cutoff sample_lib afternoon_example 1704110400 1704117600
     = Inr (Some p, Some r, length afternoon_example)"
    by blast
  with c d zf after ex chron run show ?thesis by (simp add: list_all_iff)
qed

text \<open>
  The claim as the specification words it fails on three inputs whose records all lie
  between the cutoff and the close. With the cutoff 12:00, the close 14:00 and two
  formats side by side, the record of 13:30 is the latest, and the routine returns the
  one of 13:00. When the latest record (13:30) has no price, the routine returns the
  one of 13:00 as well. And with the cutoff 11:00 (\<open>1704106800\<close>) and the close 12:00,
  a priced record of 11:30 whose string ends in \<^verbatim>\<open>Z\<close> parses to an aware datetime,
  both comparisons raise inside \<^verbatim>\<open>try\<close>, and the routine returns no price at all.
\<close>

theorem find_price_at_cutoff_close_scan_counterexample:
  "map (wall_clock sample_lib) two_formats_after
     = [Some 1704115800000000, Some 1704114000000000] \<and>
   map price two_formats_after = [Some (70 / 100), Some (65 / 100)] \<and>
   fromtimestamp sample_lib 1704110400 = Inr 1704110400000000 \<and>
   fromtimestamp sample_lib 1704117600 = Inr 1704117600000000 \<and>
   find_price_at_cutoff sample_lib two_formats_after 1704110400 1704117600
     = Inr (Some (65 / 100), Some 1704114000, 2) \<and>
   map (wall_clock sample_lib) priceless_after
     = [Some 1704115800000000, Some 1704114000000000] \<and>
   map price priceless_after = [None, Some (65 / 100)] \<and>
   find_price_at_cutoff sample_lib priceless_after 1704110400 1704117600
     = Inr (Some (65 / 100), Some 1704114000, 2) \<and>
   map (trade_time sample_lib) zoned_before = [Some (Aware 1704108600000000)] \<and>
   map price zoned_before = [Some (65 / 100)] \<and>
   timestamp sample_lib (Aware 1704108600000000) = Inr 1704108600 \<and>
   fromtimestamp sample_lib 1704106800 = Inr 1704106800000000 \<and>
   find_price_at_cutoff sample_lib zoned_before 1704106800 1704110400
     = Inr (None, None, 1)"
  by (simp add: sample_eval two_formats_after_def priceless_after_def zoned_before_def
      wall_clock_def trade_time_def)

section \<open>The fallback of the caller\<close>

text \<open>
  C3, as amended. When the price of the routine's result is absent, the caller
  substitutes \<open>last_price\<close> if it is present and positive, and otherwise
  \<open>previous_price\<close> if that is present and positive; with either it takes \<open>cutoff_ts\<close>
  as the reference timestamp and reports \<open>trades_used = 0\<close>. When neither quote is
  present and positive, the result stays as the routine returned it.
\<close>

theorem build_dataset_fallback_quote:
  assumes "fst res = None"
  shows "(\<forall>v. last_price = Some v \<and> 0 < v \<longrightarrow>
            build_dataset_fallback res last_price previous_price cutoff_ts
              = (Some v, Some (of_int cutoff_ts), 0)) \<and>
         (\<forall>w. \<not> (\<exists>v. last_price = Some v \<and> 0 < v) \<and> previous_price = Some w \<and> 0 < w \<longrightarrow>
            build_dataset_fallback res last_price previous_price cutoff_ts
              = (Some w, Some (of_int cutoff_ts), 0)) \<and>
         (\<not> (\<exists>v. last_price = Some v \<and> 0 < v) \<and> \<not> (\<exists>w. previous_price = Some w \<and> 0 < w) \<longrightarrow>
            build_dataset_fallback res last_price previous_price cutoff_ts = res)"
  using assms
  by (cases res) (auto simp: build_dataset_fallback_def quote_usable_def split: option.splits)

text \<open>
  The result of the second worked example with a last price of 0.55, and with a last
  price of zero and a previous price of 0.40.
\<close>

theorem build_dataset_fallback_quote_witness:
  "fst (None :: rat option, None :: rat option, 1 :: nat) = None \<and>
   build_dataset_fallback (None, None, 1) (Some (55 / 100)) None 1704110400
     = (Some (55 / 100), Some 1704110400, 0) \<and>
   build_dataset_fallback (None, None, 1) (Some 0) (Some (40 / 100)) 1704110400
     = (Some (40 / 100), Some 1704110400, 0)"
proof -
  have h: "fst (None :: rat option, None :: rat option, 1 :: nat) = None" by simp
  from build_dataset_fallback_quote [OF h, of "Some (55 / 100)" None 1704110400]
  have a: "build_dataset_fallback (None, None, 1) (Some (55 / 100)) None 1704110400
     = (Some (55 / 100), Some 1704110400, 0)"
    by simp
  from build_dataset_fallback_quote [OF h, of "Some 0" "Some (40 / 100)" 1704110400]
  have b: "build_dataset_fallback (None, None, 1) (Some 0) (Some (40 / 100)) 1704110400
     = (Some (40 / 100), Some 1704110400, 0)"
    by simp
  from h a b show ?thesis by blast
qed

text \<open>
  The claim as the specification words it, that the caller substitutes the quote
  whenever the price is absent, fails where the market has no positive quote: with both
  quotes zero, and with both quotes missing, the price stays absent, the reference
  timestamp stays absent and \<open>trades_used\<close> stays the length of the list.
\<close>

theorem build_dataset_fallback_quote_counterexample:
  "build_dataset_fallback (None, None, 1) (Some 0) (Some 0) 1704110400 = (None, None, 1) \<and>
   build_dataset_fallback (None, None, 1) None None 1704110400 = (None, None, 1)"
  by (simp add: build_dataset_fallback_def quote_usable_def)

section \<open>Mutation and the environment\<close>

lemma find_price_at_cutoff_store_run:
  assumes "r < length \<sigma>"
  shows "find_price_at_cutoff_store L \<sigma> r cutoff_ts close_ts =
     (find_price_at_cutoff L (\<sigma> ! r) cutoff_ts close_ts,
      if \<sigma> ! r = [] then \<sigma> else \<sigma> @ [sorted_trades (\<sigma> ! r)])"
  using assms
  by (auto simp: find_price_at_cutoff_store_def find_price_at_cutoff_def py_sorted_def
      Let_def nth_append split: sum.splits option.splits)

text \<open>The routine sees the library only through the answers to its own calls.\<close>

lemma scan_trade_same:
  assumes "same_record L L' t"
  shows "scan_trade L b t = scan_trade L' b t"
proof -
  have "scan_trade L b t = Some (p, r) \<longleftrightarrow> scan_trade L' b t = Some (p, r)" for p r
  proof (cases "trade_time L t")
    case None
    from assms None have "trade_time L' t = None"
      by (auto simp: same_record_def)
    with None show ?thesis by (simp add: scan_trade_Some)
  next
    case (Some dt)
    from assms Some have "trade_time L' t = Some dt"
      by (auto simp: same_record_def)
    moreover from assms Some have "timestamp L dt = timestamp L' dt"
      by (auto simp: same_record_def)
    ultimately show ?thesis using Some by (simp add: scan_trade_Some)
  qed
  then have ext: "scan_trade L b t = Some x \<longleftrightarrow> scan_trade L' b t = Some x" for x
    by (cases x) blast
  show ?thesis
  proof (cases "scan_trade L b t")
    case None
    have "scan_trade L' b t = None"
    proof (rule ccontr)
      assume "scan_trade L' b t \<noteq> None"
      then obtain x where "scan_trade L' b t = Some x" by blast
      with ext have "scan_trade L b t = Some x" by blast
      with None show False by simp
    qed
    with None show ?thesis by simp
  next
    case (Some x)
    with ext have "scan_trade L' b t = Some x" by blast
    with Some show ?thesis by simp
  qed
qed

lemma scan_trades_same:
  assumes "\<forall>t \<in> set ts. same_record L L' t"
  shows "scan_trades L b ts = scan_trades L' b ts"
  using assms
proof (induction ts)
  case Nil
  then show ?case by simp
next
  case (Cons t ts)
  from Cons.prems have "same_record L L' t" by simp
  then have "scan_trade L b t = scan_trade L' b t" by (rule scan_trade_same)
  moreover from Cons have "scan_trades L b ts = scan_trades L' b ts" by simp
  ultimately show ?case by (simp split: option.split)
qed

lemma find_price_at_cutoff_same:
  assumes "same_answers L L' trades cutoff_ts close_ts"
  shows "find_price_at_cutoff L trades cutoff_ts close_ts
    = find_price_at_cutoff L' trades cutoff_ts close_ts"
proof -
  from assms have "\<forall>t \<in> set (sorted_trades trades). same_record L L' t"
    by (simp add: same_answers_def set_sorted_trades)
  then have scans: "scan_trades L b (sorted_trades trades)
      = scan_trades L' b (sorted_trades trades)" for b
    by (rule scan_trades_same)
  from assms have conv: "fromtimestamp L cutoff_ts = fromtimestamp L' cutoff_ts"
    "fromtimestamp L close_ts = fromtimestamp L' close_ts"
    by (simp_all add: same_answers_def)
  show ?thesis
    unfolding find_price_at_cutoff_def Let_def scans conv by (rule refl)
qed

text \<open>
  C7, as amended. The routine mutates nothing: every object alive before the call, the
  trades list among them, is unchanged after it. Its output is the value of
  \<open>find_price_at_cutoff\<close> on the content of the list, the two timestamps and the
  answers of the library to the calls the routine makes: \<^verbatim>\<open>datetime.fromtimestamp\<close> on
  the two timestamps, which reads the local zone of the process, \<^verbatim>\<open>parser.parse\<close> on
  the \<open>created_time\<close> strings, which reads the clock for the date fields a string
  leaves out, and \<^verbatim>\<open>timestamp()\<close> on the parsed times. A second call with the same
  arguments, on the store the first call left, returns the same output whenever the
  library gives the same answers in both calls.
\<close>

theorem find_price_at_cutoff_deterministic:
  assumes "r < length \<sigma>"
    and "same_answers L L' (\<sigma> ! r) cutoff_ts close_ts"
  shows "fst (find_price_at_cutoff_store L \<sigma> r cutoff_ts close_ts)
           = find_price_at_cutoff L (\<sigma> ! r) cutoff_ts close_ts \<and>
         take (length \<sigma>) (snd (find_price_at_cutoff_store L \<sigma> r cutoff_ts close_ts))
           = \<sigma> \<and>
         snd (find_price_at_cutoff_store L \<sigma> r cutoff_ts close_ts) ! r = \<sigma> ! r \<and>
         fst (find_price_at_cutoff_store L'
               (snd (find_price_at_cutoff_store L \<sigma> r cutoff_ts close_ts)) r cutoff_ts close_ts)
           = fst (find_price_at_cutoff_store L \<sigma> r cutoff_ts close_ts)"
proof -
  let ?\<sigma>1 = "snd (find_price_at_cutoff_store L \<sigma> r cutoff_ts close_ts)"
  have s1: "?\<sigma>1 = (if \<sigma> ! r = [] then \<sigma> else \<sigma> @ [sorted_trades (\<sigma> ! r)])"
    by (simp add: find_price_at_cutoff_store_run [OF assms(1)])
  with assms(1) have r1: "r < length ?\<sigma>1" and same: "?\<sigma>1 ! r = \<sigma> ! r"
    by (simp_all add: nth_append)
  from s1 have kept: "take (length \<sigma>) ?\<sigma>1 = \<sigma>" by simp
  have out1: "fst (find_price_at_cutoff_store L \<sigma> r cutoff_ts close_ts)
      = find_price_at_cutoff L (\<sigma> ! r) cutoff_ts close_ts"
    by (simp add: find_price_at_cutoff_store_run [OF assms(1)])
  have "fst (find_price_at_cutoff_store L' ?\<sigma>1 r cutoff_ts close_ts)
      = find_price_at_cutoff L' (?\<sigma>1 ! r) cutoff_ts close_ts"
    by (simp add: find_price_at_cutoff_store_run [OF r1])
  with same find_price_at_cutoff_same [OF assms(2)] out1 kept show ?thesis by simp
qed

text \<open>
  Two calls in a row on a store that holds the list of the first worked example and one
  more list, the second call a day later: no string of the list leaves its date out,
  the library answers alike, both calls return the same, and the two lists are as they
  were.
\<close>

theorem find_price_at_cutoff_deterministic_witness:
  "(0::nat) < length [window_example, late_example] \<and>
   same_answers sample_lib (clock_lib 1704153600000000) window_example
     1704110400 1704117600 \<and>
   fst (find_price_at_cutoff_store sample_lib [window_example, late_example] 0
          1704110400 1704117600)
     = Inr (Some (65 / 100), Some 1704108600, 3) \<and>
   fst (find_price_at_cutoff_store (clock_lib 1704153600000000)
          (snd (find_price_at_cutoff_store sample_lib [window_example, late_example] 0
                  1704110400 1704117600)) 0 1704110400 1704117600)
     = Inr (Some (65 / 100), Some 1704108600, 3) \<and>
   take 2 (snd (find_price_at_cutoff_store sample_lib [window_example, late_example] 0
                  1704110400 1704117600))
     = [window_example, late_example]"
proof -
  have r: "(0::nat) < length [window_example, late_example]" by simp
  have same: "same_answers sample_lib (clock_lib 1704153600000000)
      ([window_example, late_example] ! 0) 1704110400 1704117600"
    by (simp add: same_answers_def same_record_def trade_time_def trade_key_def
        window_example_def mk_trade_def sample_lib_def clock_lib_def clock_parse_def
        sample_parse_def)
  have run: "find_price_at_cutoff sample_lib window_example 1704110400 1704117600
     = Inr (Some (65 / 100), Some 1704108600, 3)"
    by (simp add: sample_eval window_example_def)
  from find_price_at_cutoff_deterministic [OF r same] run r same
  show ?thesis by (simp add: numeral_2_eq_2)
qed

text \<open>
  The claim as the specification words it, that the output is a function of the trades
  and the two timestamps alone, fails. The trade of 10:00 with the cutoff 12:00 and the
  close 14:00 gives its price on the sample machine and no price on the machine five
  hours west, where the two timestamps read 07:00 and 09:00. And the trade whose
  string is \<^verbatim>\<open>10:00\<close>, without a date, gives its price on 2024-01-01 and no price a day
  later, when the same string denotes 10:00 of 2024-01-02.
\<close>

theorem find_price_at_cutoff_deterministic_counterexample:
  "find_price_at_cutoff sample_lib morning_example 1704110400 1704117600
     = Inr (Some (60 / 100), Some 1704103200, 1) \<and>
   fromtimestamp west_lib 1704110400 = Inr 1704092400000000 \<and>
   fromtimestamp west_lib 1704117600 = Inr 1704099600000000 \<and>
   find_price_at_cutoff west_lib morning_example 1704110400 1704117600
     = Inr (None, None, 1) \<and>
   find_price_at_cutoff (clock_lib 1704067200000000) undated_example 1704110400 1704117600
     = Inr (Some (60 / 100), Some 1704103200, 1) \<and>
   parse (clock_lib 1704153600000000) ''10:00'' = Inr (Naive 1704189600000000) \<and>
   find_price_at_cutoff (clock_lib 1704153600000000) undated_example 1704110400 1704117600
     = Inr (None, None, 1)"
  by (simp add: sample_eval morning_example_def undated_example_def west_lib_def
      west_fromtimestamp_def clock_lib_def clock_parse_def)

end
